theory Spec2Isabelle
  imports Complex_Main
begin

section \<open>JavaScript values used by the order handlers\<close>

text \<open>
  A thrown \<open>Error\<close> (or a rejected promise) is a value carrying its message; a handler
  returns \<open>Inl\<close> of it where the source throws.
\<close>

datatype error = Error string

text \<open>
  Truthiness, as the source's \<open>!x\<close> and \<open>a && b\<close> test it: an optional string is falsy
  when it is \<open>undefined\<close> or empty, an optional number when it is \<open>undefined\<close> or zero.
\<close>

definition truthy_str :: "string option \<Rightarrow> bool" where
  "truthy_str v = (case v of None \<Rightarrow> False | Some s \<Rightarrow> s \<noteq> [])"

definition truthy_num :: "nat option \<Rightarrow> bool" where
  "truthy_num v = (case v of None \<Rightarrow> False | Some n \<Rightarrow> n \<noteq> 0)"

text \<open>
  \<open>String.prototype.toLowerCase\<close> on the characters a transaction hash is made of:
  the letters A to Z move to a to z, every other character stays.
\<close>

definition toLowerCase_char :: "char \<Rightarrow> char" where
  "toLowerCase_char c =
     (case map_of (zip ''ABCDEFGHIJKLMNOPQRSTUVWXYZ'' ''abcdefghijklmnopqrstuvwxyz'') c of
        Some l \<Rightarrow> l
      | None \<Rightarrow> c)"

definition toLowerCase :: "string \<Rightarrow> string" where
  "toLowerCase s = map toLowerCase_char s"

text \<open>\<open>Number.prototype.toString\<close> of a non-negative integer: its decimal digits.\<close>

definition digit_char :: "nat \<Rightarrow> char" where
  "digit_char d = ''0123456789'' ! (d mod 10)"

fun toString :: "nat \<Rightarrow> string" where
  "toString n = (if n < 10 then [digit_char n] else toString (n div 10) @ [digit_char (n mod 10)])"

declare toString.simps [simp del]

text \<open>\<open>Math.round(Date.now() / 1000)\<close> for a clock reading in milliseconds.\<close>

definition round_seconds :: "nat \<Rightarrow> nat" where
  "round_seconds ms = (ms + 500) div 1000"

text \<open>A template literal prints an undefined value as the word \<open>undefined\<close>.\<close>

definition interpolate :: "string option \<Rightarrow> string" where
  "interpolate v = (case v of None \<Rightarrow> ''undefined'' | Some s \<Rightarrow> s)"

section \<open>Orders, transactions and the execution client\<close>

text \<open>
  Modelled from the spec: the declaration of \<open>StopLimitOrder\<close> lives in the execution
  library and is not among the sources. The record has the fields of the spec's order
  record and those the handlers read or write; a field that is not set is \<open>None\<close>.
\<close>

record StopLimitOrder =
  order_id :: "string option"
  owner :: "string option"
  inputToken :: "string option"
  outputToken :: "string option"
  inputAmount :: "string option"
  minReturn :: "string option"
  maxReturn :: "string option"
  module :: "string option"
  handler :: "string option"
  data :: "string option"
  witness :: "string option"
  secret :: "string option"
  status :: "string option"
  createdTxHash :: "string option"
  cancelledTxHash :: "string option"
  executedTxHash :: "string option"
  createdAt :: "string option"
  updatedAt :: "string option"

record TransactionResponse =
  hash :: string

record Overrides =
  gasPrice :: "nat option"
  gasLimit :: "nat option"

text \<open>The payload of an encoded submission (\<open>payload.to\<close>, \<open>payload.data\<close>, \<open>payload.value\<close>).\<close>

record TransactionData =
  payload_to :: string
  payload_data :: string
  payload_value :: int

text \<open>The request given to \<open>signer.sendTransaction\<close>: the overrides, then \<open>to\<close>, \<open>data\<close>, \<open>value\<close>.\<close>

record TransactionRequest = Overrides +
  to :: string
  tx_data :: string
  tx_value :: int

text \<open>The argument \<open>orderToSubmit\<close> of the stop-limit submission handler.\<close>

record OrderToSubmit =
  s_inputToken :: string
  s_outputToken :: string
  s_inputAmount :: string
  s_outputAmount :: string
  s_slippage :: int
  s_owner :: string

text \<open>The optional argument \<open>orderDetails\<close> of the stop-limit cancellation handler.\<close>

record OrderDetails =
  d_inputTokenSymbol :: string
  d_outputTokenSymbol :: string
  d_inputAmount :: string
  d_outputAmount :: string
  d_maxOutputAmount :: string

text \<open>
  The execution clients are external: each method is a function from its arguments to
  the outcome of the call, \<open>Inl\<close> when the promise rejects.
\<close>

record Signer =
  sendTransaction :: "TransactionRequest \<Rightarrow> error + TransactionResponse"

record GelatoStopLimitOrders =
  signer :: "Signer option"
  encodeStopLimitOrderSubmissionWithSecret ::
    "string \<Rightarrow> string \<Rightarrow> string \<Rightarrow> string \<Rightarrow> int \<Rightarrow> string
       \<Rightarrow> error + (string \<times> TransactionData \<times> StopLimitOrder)"
  cancelLimitOrder :: "StopLimitOrder \<Rightarrow> bool \<Rightarrow> Overrides \<Rightarrow> error + TransactionResponse"

record GelatoLimitOrders =
  getFeeAndSlippageAdjustedMinReturn :: "string \<Rightarrow> error + string"
  submitLimitOrder :: "string \<Rightarrow> string \<Rightarrow> string \<Rightarrow> string \<Rightarrow> error + TransactionResponse"
  cancelLimitOrder4 :: "string \<Rightarrow> string \<Rightarrow> string \<Rightarrow> string \<Rightarrow> error + TransactionResponse"

text \<open>Every call a handler makes on an execution client or on the signer, in order.\<close>

datatype client_call =
    EncodeStopLimitOrderSubmissionWithSecret string string string string int string
  | SendTransaction TransactionRequest
  | CancelStopLimitOrder StopLimitOrder bool Overrides
  | GetFeeAndSlippageAdjustedMinReturn string
  | SubmitLimitOrder string string string string
  | CancelLimitOrder string string string string

text \<open>
  Modelled from the spec: \<open>addTransaction\<close> (the value of \<open>useTransactionAdder\<close>) is not
  among the sources. Each call hands the history one entry, made of the transaction and
  the custom data of the call; the history is the list of these entries in call order
  (the History Store's \<open>append(record)\<close>).
\<close>

record TransactionDetails =
  response :: TransactionResponse
  summary :: string
  txType :: string
  order :: "StopLimitOrder option"

record world =
  calls :: "client_call list"
  transactions :: "TransactionDetails list"

definition addTransaction ::
  "TransactionResponse \<Rightarrow> string \<Rightarrow> string \<Rightarrow> StopLimitOrder option \<Rightarrow> world \<Rightarrow> world" where
  "addTransaction tx summ ty ord w =
     w\<lparr>transactions := transactions w @
          [\<lparr>response = tx, summary = summ, txType = ty, order = ord\<rparr>]\<rparr>"

definition call :: "client_call \<Rightarrow> world \<Rightarrow> world" where
  "call c w = w\<lparr>calls := calls w @ [c]\<rparr>"

section \<open>The stop-limit handlers\<close>

text \<open>
  What the hook \<open>useGelatoStopLimitOrdersHandlers\<close> reads before it builds its handlers:
  \<open>useWeb3\<close>, the execution client, \<open>useGasPrice\<close>, and the clock \<open>Date.now()\<close>.
\<close>

record Web3 =
  chainId :: "nat option"
  account :: "string option"

record StopLimitHook = Web3 +
  gelatoStopLimitOrders :: "GelatoStopLimitOrders option"
  useGasPrice :: "nat option"
  Date_now :: nat

definition handleStopLimitOrderSubmission ::
  "StopLimitHook \<Rightarrow> OrderToSubmit \<Rightarrow> Overrides option \<Rightarrow> world
     \<Rightarrow> (error + TransactionResponse) \<times> world" where
  "handleStopLimitOrderSubmission h orderToSubmit overrides w =
     (case gelatoStopLimitOrders h of
        None \<Rightarrow> (Inl (Error ''Could not reach Gelato Limit Orders library''), w)
      | Some lib \<Rightarrow>
          if \<not> truthy_num (chainId h) then (Inl (Error ''No chainId''), w)
          else (case signer lib of
            None \<Rightarrow> (Inl (Error ''No signer''), w)
          | Some sg \<Rightarrow>
              let w1 = call (EncodeStopLimitOrderSubmissionWithSecret
                         (s_inputToken orderToSubmit) (s_outputToken orderToSubmit)
                         (s_inputAmount orderToSubmit) (s_outputAmount orderToSubmit)
                         (s_slippage orderToSubmit) (s_owner orderToSubmit)) w
              in (case encodeStopLimitOrderSubmissionWithSecret lib
                         (s_inputToken orderToSubmit) (s_outputToken orderToSubmit)
                         (s_inputAmount orderToSubmit) (s_outputAmount orderToSubmit)
                         (s_slippage orderToSubmit) (s_owner orderToSubmit) of
                    Inl e \<Rightarrow> (Inl e, w1)
                  | Inr (wit, payload, ord) \<Rightarrow>
                      let ov = (case overrides of
                                  Some given \<Rightarrow> given
                                | None \<Rightarrow> \<lparr>gasPrice = useGasPrice h, gasLimit = None\<rparr>);
                          req = \<lparr>gasPrice = gasPrice ov, gasLimit = gasLimit ov,
                                 to = payload_to payload, tx_data = payload_data payload,
                                 tx_value = payload_value payload\<rparr>;
                          w2 = call (SendTransaction req) w1
                      in (case sendTransaction sg req of
                            Inl e \<Rightarrow> (Inl e, w2)
                          | Inr tx \<Rightarrow>
                              let now = round_seconds (Date_now h)
                              in (Inr tx,
                                  addTransaction tx ''Order submission'' ''submission''
                                    (Some (ord\<lparr>createdTxHash := Some (toLowerCase (hash tx)),
                                               witness := Some wit,
                                               status := Some ''open'',
                                               updatedAt := Some (toString now)\<rparr>))
                                    w2)))))"

definition checkIfOrderExists :: "StopLimitOrder \<Rightarrow> bool" where
  "checkIfOrderExists orderToCancel =
     (truthy_str (module orderToCancel) \<and>
      truthy_str (inputToken orderToCancel) \<and>
      truthy_str (owner orderToCancel) \<and>
      truthy_str (witness orderToCancel) \<and>
      truthy_str (data orderToCancel))"

definition cancellation_summary :: "OrderDetails option \<Rightarrow> string" where
  "cancellation_summary orderDetails =
     (case orderDetails of
        Some d \<Rightarrow> ''Order cancellation: Stoploss '' @ d_inputAmount d @ '' '' @
                  d_inputTokenSymbol d @ '' valid at '' @ d_maxOutputAmount d @ '' '' @
                  d_outputTokenSymbol d
      | None \<Rightarrow> ''Order cancellation'')"

definition handleStopLimitOrderCancellation ::
  "StopLimitHook \<Rightarrow> StopLimitOrder \<Rightarrow> OrderDetails option \<Rightarrow> Overrides option \<Rightarrow> world
     \<Rightarrow> (error + TransactionResponse) \<times> world" where
  "handleStopLimitOrderCancellation h orderToCancel orderDetails overrides w =
     (case gelatoStopLimitOrders h of
        None \<Rightarrow> (Inl (Error ''Could not reach Gelato Limit Orders library''), w)
      | Some lib \<Rightarrow>
          if \<not> truthy_num (chainId h) then (Inl (Error ''No chainId''), w)
          else if \<not> truthy_str (account h) then (Inl (Error ''No account''), w)
          else
            let ov = (case overrides of
                        Some given \<Rightarrow> given
                      | None \<Rightarrow> \<lparr>gasPrice = useGasPrice h, gasLimit = Some 600000\<rparr>);
                w1 = call (CancelStopLimitOrder orderToCancel
                             (checkIfOrderExists orderToCancel) ov) w
            in (case cancelLimitOrder lib orderToCancel (checkIfOrderExists orderToCancel) ov of
                  Inl e \<Rightarrow> (Inl e, w1)
                | Inr tx \<Rightarrow>
                    let now = round_seconds (Date_now h)
                    in (Inr tx,
                        addTransaction tx (cancellation_summary orderDetails) ''cancellation''
                          (Some (orderToCancel\<lparr>updatedAt := Some (toString now),
                                               status := Some ''cancelled'',
                                               cancelledTxHash := Some (toLowerCase (hash tx))\<rparr>))
                          w1)))"

section \<open>Amounts and prices\<close>

text \<open>
  The amount and price classes come from the token SDK the hooks import, which is not
  part of the repository. A \<open>CurrencyAmount\<close> is a fraction of raw units of its currency
  and a \<open>Price\<close> a fraction with a base and a quote currency. Building an amount computes
  its quotient, by a big-integer division that truncates towards zero and throws on a
  zero denominator, and fails when the quotient exceeds \<open>MaxUint256\<close>; \<open>multiply\<close> and
  \<open>divide\<close> build a new amount.
\<close>

record Currency =
  decimals :: nat
  isNative :: bool
  symbol :: "string option"
  wrapped_address :: string

record Fraction =
  numerator :: int
  denominator :: int


record Price = Fraction +
  baseCurrency :: Currency
  quoteCurrency :: Currency







definition invert :: "Price \<Rightarrow> Price" where
  "invert p = \<lparr>numerator = denominator p, denominator = numerator p,
               baseCurrency = quoteCurrency p, quoteCurrency = baseCurrency p\<rparr>"





record 'a InOut =
  input :: 'a
  "output" :: 'a

record 'a InOutPrice = "'a InOut" +
  price :: 'a



section \<open>Significant digits\<close>

















section \<open>The order draft and the rate type\<close>

datatype Field = INPUT | OUTPUT | PRICE

datatype Rate = MUL | DIV









section \<open>The provider library\<close>

text \<open>
  The provider library the hooks get from \<open>useWeb3\<close> is any value; what matters of it is
  the outcome of \<open>library.getSigner()\<close>, which throws when the library has no such method
  or the method fails. \<open>library?.getSigner()\<close> is undefined without a library.
\<close>

record Library =
  getSigner :: "error + Signer"

definition optional_getSigner :: "Library option \<Rightarrow> error + Signer option" where
  "optional_getSigner lib =
     (case lib of
        None \<Rightarrow> Inr None
      | Some l \<Rightarrow> (case getSigner l of Inl e \<Rightarrow> Inl e | Inr sg \<Rightarrow> Inr (Some sg)))"

text \<open>
  The memoised client of \<open>useGelatoLimitOrdersHandlers\<close>: undefined unless the chain id
  and the library are both present, else the client its constructor builds. The
  constructor is not among the sources and is a parameter.
\<close>

definition useGelatoLimitOrders_client ::
  "(nat \<Rightarrow> Signer option \<Rightarrow> error + GelatoLimitOrders) \<Rightarrow> nat option \<Rightarrow> Library option
     \<Rightarrow> error + GelatoLimitOrders option" where
  "useGelatoLimitOrders_client newGelatoLimitOrders chain lib =
     (case chain of
        None \<Rightarrow> Inr None
      | Some c \<Rightarrow>
          if c \<noteq> 0 \<and> lib \<noteq> None then
            (case optional_getSigner lib of
               Inl e \<Rightarrow> Inl e
             | Inr sg \<Rightarrow>
                 (case newGelatoLimitOrders c sg of
                    Inl e \<Rightarrow> Inl e
                  | Inr client \<Rightarrow> Inr (Some client)))
          else Inr None)"

section \<open>The plain limit-order handlers\<close>

text \<open>
  What the hook \<open>useGelatoLimitOrdersHandlers\<close> reads before it builds its handlers.
  \<open>gelatoLimitOrders\<close> is the memoised client (a value of \<open>useGelatoLimitOrders_client\<close>)
  and \<open>raw\<close> the memoised value of \<open>rawAmounts\<close>. \<open>isEthereumChain\<close>, from the execution
  library's \<open>utils\<close>, and the address constant \<open>NATIVE\<close> are not among the sources and
  are taken as they come.
\<close>

record LimitHook = Web3 +
  gelatoLimitOrders :: "GelatoLimitOrders option"
  currencies :: "Currency option InOut"
  raw :: "string option InOut"
  formattedAmounts :: "string InOutPrice"
  orderRateType :: Rate
  isEthereumChain :: "nat \<Rightarrow> bool"
  NATIVE :: string

definition submission_summary :: "LimitHook \<Rightarrow> Currency \<Rightarrow> Currency \<Rightarrow> string" where
  "submission_summary h inputCurrency outputCurrency =
     ''Swap '' @ input (formattedAmounts h) @ '' '' @ interpolate (symbol inputCurrency) @
     '' for '' @ output (formattedAmounts h) @ '' '' @ interpolate (symbol outputCurrency) @
     '' when 1 '' @
     interpolate (if orderRateType h = MUL then symbol inputCurrency else symbol outputCurrency) @
     '' = '' @ price (formattedAmounts h) @ '' '' @
     interpolate (if orderRateType h = MUL then symbol outputCurrency else symbol inputCurrency)"

text \<open>The test \<open>!currency?.wrapped.address\<close>: no currency, or one with an empty address.\<close>

definition invalid_currency :: "Currency option \<Rightarrow> bool" where
  "invalid_currency c = (case c of None \<Rightarrow> True | Some cur \<Rightarrow> wrapped_address cur = [])"

definition handleLimitOrderSubmission ::
  "LimitHook \<Rightarrow> world \<Rightarrow> (error + string option) \<times> world" where
  "handleLimitOrderSubmission h w =
     (case input (currencies h) of
        None \<Rightarrow> (Inl (Error ''Invalid input currency''), w)
      | Some inputCurrency \<Rightarrow>
     if wrapped_address inputCurrency = [] then (Inl (Error ''Invalid input currency''), w)
     else (case output (currencies h) of
        None \<Rightarrow> (Inl (Error ''Invalid output currency''), w)
      | Some outputCurrency \<Rightarrow>
     if wrapped_address outputCurrency = [] then (Inl (Error ''Invalid output currency''), w)
     else (case input (raw h) of
        None \<Rightarrow> (Inl (Error ''Invalid input amount''), w)
      | Some rawInput \<Rightarrow>
     if rawInput = [] then (Inl (Error ''Invalid input amount''), w)
     else (case output (raw h) of
        None \<Rightarrow> (Inl (Error ''Invalid output amount''), w)
      | Some rawOutput \<Rightarrow>
     if rawOutput = [] then (Inl (Error ''Invalid output amount''), w)
     else (case gelatoLimitOrders h of
        None \<Rightarrow> (Inl (Error ''Could not reach Gelato Limit Orders library''), w)
      | Some lib \<Rightarrow>
     (case chainId h of
        None \<Rightarrow> (Inl (Error ''No chainId''), w)
      | Some chain \<Rightarrow>
     if chain = 0 then (Inl (Error ''No chainId''), w)
     else
       let adjusted =
             (if \<not> isEthereumChain h chain then
                (getFeeAndSlippageAdjustedMinReturn lib rawOutput,
                 call (GetFeeAndSlippageAdjustedMinReturn rawOutput) w)
              else (Inr rawOutput, w))
       in (case fst adjusted of
             Inl e \<Rightarrow> (Inl e, snd adjusted)
           | Inr minRet \<Rightarrow>
               let src = (if isNative inputCurrency then NATIVE h
                          else wrapped_address inputCurrency);
                   dst = (if isNative outputCurrency then NATIVE h
                          else wrapped_address outputCurrency);
                   w2 = call (SubmitLimitOrder src dst rawInput minRet) (snd adjusted)
               in (case submitLimitOrder lib src dst rawInput minRet of
                     Inl e \<Rightarrow> (Inl e, w2)
                   | Inr tx \<Rightarrow>
                       (Inr (Some (hash tx)),
                        addTransaction tx (submission_summary h inputCurrency outputCurrency)
                          ''submission'' None w2)))))))))"

definition handleLimitOrderCancellation ::
  "LimitHook \<Rightarrow> string \<Rightarrow> string \<Rightarrow> string \<Rightarrow> string \<Rightarrow> world
     \<Rightarrow> (error + string option) \<times> world" where
  "handleLimitOrderCancellation h fromCurrency toCurrency amount wit w =
     (case gelatoLimitOrders h of
        None \<Rightarrow> (Inl (Error ''Could not reach Gelato Limit Orders library''), w)
      | Some lib \<Rightarrow>
          let w1 = call (CancelLimitOrder fromCurrency toCurrency amount wit) w
          in (case cancelLimitOrder4 lib fromCurrency toCurrency amount wit of
                Inl e \<Rightarrow> (Inl e, w1)
              | Inr tx \<Rightarrow>
                  (Inr (Some (hash tx)),
                   addTransaction tx ''Order cancellation'' ''cancellation'' None w1)))"

section \<open>The stop-loss client hook\<close>

text \<open>
  \<open>useGelatoStoplossOrdersLib\<close>. The constructor of the execution client is not among the
  sources and is a parameter. The hook first logs \<open>chainId\<close> and \<open>library?.getSigner()\<close>,
  outside the \<open>try\<close> block, then computes its result inside it.
\<close>

definition useGelatoStoplossOrdersLib ::
  "(nat \<Rightarrow> Signer option \<Rightarrow> string \<Rightarrow> error + 'client) \<Rightarrow> nat option \<Rightarrow> Library option
     \<Rightarrow> error + 'client option" where
  "useGelatoStoplossOrdersLib newGelatoStoplossOrders chain lib =
     (case optional_getSigner lib of
        Inl e \<Rightarrow> Inl e
      | Inr logged \<Rightarrow>
          Inr (case chain of
                 None \<Rightarrow> None
               | Some c \<Rightarrow>
                   if c \<noteq> 0 \<and> lib \<noteq> None then
                     (case optional_getSigner lib of
                        Inl e \<Rightarrow> None
                      | Inr sg \<Rightarrow>
                          (case newGelatoStoplossOrders c sg ''quickswap_stoploss'' of
                             Inl e \<Rightarrow> None
                           | Inr client \<Rightarrow> Some client))
                   else None))"

section \<open>The history as a store of order records\<close>

text \<open>
  Modelled from the spec: the History Store is keyed by the order's identifier, its
  witness, and \<open>find(id)\<close> gives the record the store holds for it. In the list of
  entries that is the order record of the latest entry carrying that witness.
\<close>

definition has_witness :: "string \<Rightarrow> TransactionDetails \<Rightarrow> bool" where
  "has_witness wit e = (case order e of None \<Rightarrow> False | Some r \<Rightarrow> witness r = Some wit)"

definition find_record :: "TransactionDetails list \<Rightarrow> string \<Rightarrow> StopLimitOrder option" where
  "find_record hist wit =
     (case find (has_witness wit) (rev hist) of None \<Rightarrow> None | Some e \<Rightarrow> order e)"

definition order_status :: "TransactionDetails list \<Rightarrow> string \<Rightarrow> string option" where
  "order_status hist wit = (case find_record hist wit of None \<Rightarrow> None | Some r \<Rightarrow> status r)"

text \<open>
  One handler operation, successful or not, of any of the four submission and
  cancellation handlers, each under whatever hook values and arguments it is called with.
\<close>

inductive handler_step :: "world \<Rightarrow> world \<Rightarrow> bool" where
  stop_limit_submission:
    "handleStopLimitOrderSubmission h orderToSubmit overrides w = (res, w') \<Longrightarrow>
     handler_step w w'"
| stop_limit_cancellation:
    "handleStopLimitOrderCancellation h orderToCancel details overrides w = (res, w') \<Longrightarrow>
     handler_step w w'"
| limit_submission:
    "handleLimitOrderSubmission hl w = (hres, w') \<Longrightarrow> handler_step w w'"
| limit_cancellation:
    "handleLimitOrderCancellation hl fromCurrency toCurrency amount wit w = (hres, w') \<Longrightarrow>
     handler_step w w'"

text \<open>
  A successful stop-limit submission, with the witness the execution client returned for
  it, under which the handler writes the new record.
\<close>

inductive submits :: "world \<Rightarrow> string \<Rightarrow> world \<Rightarrow> bool" where
  "gelatoStopLimitOrders h = Some lib \<Longrightarrow>
   encodeStopLimitOrderSubmissionWithSecret lib
     (s_inputToken orderToSubmit) (s_outputToken orderToSubmit)
     (s_inputAmount orderToSubmit) (s_outputAmount orderToSubmit)
     (s_slippage orderToSubmit) (s_owner orderToSubmit) = Inr (wit, payload, ord) \<Longrightarrow>
   handleStopLimitOrderSubmission h orderToSubmit overrides w = (Inr tx, w') \<Longrightarrow>
   submits w wit w'"

text \<open>
  Modelled from the spec: the execution client binds every stop-limit submission to a
  freshly generated secret and witness. The handlers do not check it. A fresh step is a
  handler operation that is not a submission under a witness the history already holds.
\<close>

definition fresh_step :: "world \<Rightarrow> world \<Rightarrow> bool" where
  "fresh_step w w' =
     (handler_step w w' \<and> (\<forall>wit. submits w wit w' \<longrightarrow> find_record (transactions w) wit = None))"

section \<open>Concrete inputs\<close>

definition empty_world :: world where
  "empty_world = \<lparr>calls = [], transactions = []\<rparr>"

definition demo_tx :: TransactionResponse where
  "demo_tx = \<lparr>hash = ''0xAbCd12''\<rparr>"

definition demo_signer :: Signer where
  "demo_signer = \<lparr>sendTransaction = (\<lambda>req. Inr demo_tx)\<rparr>"

definition demo_order :: StopLimitOrder where
  "demo_order =
     \<lparr>order_id = None, owner = Some ''0xowner'', inputToken = Some ''0xusdc'',
      outputToken = Some ''0xweth'', inputAmount = Some ''1000000000'',
      minReturn = Some ''490000000000000000'', maxReturn = Some ''500000000000000000'',
      module = Some ''0xmodule'', handler = Some ''0xhandler'', data = Some ''0xdata'',
      witness = None, secret = Some ''0xsecret'', status = None, createdTxHash = None,
      cancelledTxHash = None, executedTxHash = None, createdAt = None, updatedAt = None\<rparr>"

definition demo_payload :: TransactionData where
  "demo_payload = \<lparr>payload_to = ''0xcore'', payload_data = ''0xencoded'', payload_value = 0\<rparr>"

definition demo_client :: GelatoStopLimitOrders where
  "demo_client =
     \<lparr>signer = Some demo_signer,
      encodeStopLimitOrderSubmissionWithSecret =
        (\<lambda>i out ia oa sl ow. Inr (''0xwitness'', demo_payload, demo_order)),
      cancelLimitOrder = (\<lambda>ord exists ov. Inr \<lparr>hash = ''0xCAFE99''\<rparr>)\<rparr>"

definition demo_hook :: StopLimitHook where
  "demo_hook =
     \<lparr>chainId = Some 137, account = Some ''0xowner'',
      gelatoStopLimitOrders = Some demo_client, useGasPrice = Some 30,
      Date_now = 1700000000499\<rparr>"

definition demo_submit :: OrderToSubmit where
  "demo_submit =
     \<lparr>s_inputToken = ''0xusdc'', s_outputToken = ''0xweth'', s_inputAmount = ''1000000000'',
      s_outputAmount = ''500000000000000000'', s_slippage = 40, s_owner = ''0xowner''\<rparr>"

text \<open>An order record the caller holds whose witness is not set.\<close>

definition order_without_witness :: StopLimitOrder where
  "order_without_witness = demo_order\<lparr>status := Some ''open''\<rparr>"

text \<open>An order record, with its witness, that no history entry has created.\<close>

definition unknown_order :: StopLimitOrder where
  "unknown_order = demo_order\<lparr>witness := Some ''0xnever'', status := Some ''open''\<rparr>"

definition USDC :: Currency where
  "USDC = \<lparr>decimals = 6, isNative = False, symbol = Some ''USDC'', wrapped_address = ''0xusdc''\<rparr>"

definition WETH :: Currency where
  "WETH = \<lparr>decimals = 18, isNative = False, symbol = Some ''WETH'', wrapped_address = ''0xweth''\<rparr>"

definition demo_limit_client :: GelatoLimitOrders where
  "demo_limit_client =
     \<lparr>getFeeAndSlippageAdjustedMinReturn = (\<lambda>out. Inr ''497000000000000000''),
      submitLimitOrder = (\<lambda>i out ia mr. Inr demo_tx),
      cancelLimitOrder4 = (\<lambda>i out a wit. Inr \<lparr>hash = ''0xCAFE99''\<rparr>)\<rparr>"

definition demo_limit_hook :: LimitHook where
  "demo_limit_hook =
     \<lparr>chainId = Some 137, account = Some ''0xowner'',
      gelatoLimitOrders = Some demo_limit_client,
      currencies = \<lparr>input = Some USDC, output = Some WETH\<rparr>,
      raw = \<lparr>input = Some ''1000000000'', output = Some ''500000000000000000''\<rparr>,
      formattedAmounts = \<lparr>input = ''1000'', output = ''0.5'', price = ''0.0005''\<rparr>,
      orderRateType = MUL,
      isEthereumChain = (\<lambda>c. c = 1 \<or> c = 3),
      NATIVE = ''0xEeeeeEeeeEeEeeEeEeEeeEEEeeeeEeeeeeeeEEeE''\<rparr>"



text \<open>A provider library without a usable \<open>getSigner\<close>, and a constructor that succeeds.\<close>

definition library_without_getSigner :: Library where
  "library_without_getSigner = \<lparr>getSigner = Inl (Error ''library.getSigner is not a function'')\<rparr>"

definition library_with_signer :: Library where
  "library_with_signer = \<lparr>getSigner = Inr demo_signer\<rparr>"

definition demo_constructor :: "nat \<Rightarrow> Signer option \<Rightarrow> string \<Rightarrow> error + nat" where
  "demo_constructor c sg handler_name = (if c = 137 then Inr c else Inl (Error ''Invalid chainId''))"

text \<open>The record the demo submission writes, and the worlds after it and after its cancellation.\<close>

definition submitted_order :: StopLimitOrder where
  "submitted_order =
     demo_order\<lparr>createdTxHash := Some ''0xabcd12'', witness := Some ''0xwitness'',
                status := Some ''open'', updatedAt := Some ''1700000000''\<rparr>"

definition world_after_submission :: world where
  "world_after_submission =
     snd (handleStopLimitOrderSubmission demo_hook demo_submit None empty_world)"

definition world_after_cancellation :: world where
  "world_after_cancellation =
     snd (handleStopLimitOrderCancellation demo_hook submitted_order None None
            world_after_submission)"



text \<open>The world after the demo submission is made once more on the cancelled record.\<close>

definition world_reopened :: world where
  "world_reopened =
     snd (handleStopLimitOrderSubmission demo_hook demo_submit None world_after_cancellation)"


text \<open>
  A client whose transactions take the minimum return they were submitted with as their
  hash, and a hook with it.
\<close>

definition echo_limit_client :: GelatoLimitOrders where
  "echo_limit_client =
     \<lparr>getFeeAndSlippageAdjustedMinReturn = (\<lambda>out. Inr ''497000000000000000''),
      submitLimitOrder = (\<lambda>i out ia mr. Inr \<lparr>hash = mr\<rparr>),
      cancelLimitOrder4 = (\<lambda>i out a wit. Inr \<lparr>hash = ''0xCAFE99''\<rparr>)\<rparr>"

definition echo_limit_hook :: LimitHook where
  "echo_limit_hook = demo_limit_hook\<lparr>gelatoLimitOrders := Some echo_limit_client\<rparr>"

section \<open>Evaluation of the concrete inputs\<close>

lemmas demo_defs = demo_hook_def demo_client_def demo_signer_def demo_submit_def demo_order_def
  demo_payload_def demo_tx_def empty_world_def

lemmas demo_limit_defs = demo_limit_hook_def demo_limit_client_def USDC_def WETH_def demo_tx_def
  empty_world_def

lemmas handler_simps = truthy_num_def truthy_str_def call_def addTransaction_def Let_def

lemma lower_cafe: "toLowerCase ''0xCAFE99'' = ''0xcafe99''"
  by (simp add: toLowerCase_def toLowerCase_char_def)

lemma demo_now: "toString (round_seconds 1700000000499) = ''1700000000''"
  by (simp add: round_seconds_def toString.simps digit_char_def)

lemma run_cancel:
  "handleStopLimitOrderCancellation demo_hook unknown_order None None empty_world =
     (Inr \<lparr>hash = ''0xCAFE99''\<rparr>,
      snd (handleStopLimitOrderCancellation demo_hook unknown_order None None empty_world))"
  by (simp add: handleStopLimitOrderCancellation_def demo_defs unknown_order_def handler_simps)

lemma world_after_submission_eq:
  "world_after_submission =
     \<lparr>calls = [EncodeStopLimitOrderSubmissionWithSecret ''0xusdc'' ''0xweth'' ''1000000000''
                 ''500000000000000000'' 40 ''0xowner'',
               SendTransaction \<lparr>gasPrice = Some 30, gasLimit = None, to = ''0xcore'',
                 tx_data = ''0xencoded'', tx_value = 0\<rparr>],
      transactions = [\<lparr>response = demo_tx, summary = ''Order submission'',
                       txType = ''submission'', order = Some submitted_order\<rparr>]\<rparr>"
  by (simp add: world_after_submission_def submitted_order_def handleStopLimitOrderSubmission_def
      demo_hook_def demo_client_def demo_signer_def demo_submit_def demo_payload_def
      empty_world_def handler_simps toLowerCase_def toLowerCase_char_def demo_tx_def
      round_seconds_def toString.simps digit_char_def)

section \<open>Submission\<close>

text \<open>
  Claim C1, as the claim states it, fails on the plain limit-order handler: a successful
  submission there hands the history one entry that carries no order record, so no record
  with status \<open>open\<close> is appended.
\<close>

theorem limit_submission_records_no_order:
  "fst (handleLimitOrderSubmission demo_limit_hook empty_world) = Inr (Some ''0xAbCd12'') \<and>
   map order (transactions (snd (handleLimitOrderSubmission demo_limit_hook empty_world))) = [None]"
  by (simp add: handleLimitOrderSubmission_def demo_limit_defs handler_simps)

text \<open>
  Claim C1, amended. A successful stop-limit submission appends exactly one entry, whose
  order record has status \<open>open\<close> and \<open>createdTxHash\<close> equal to the lower-cased hash of the
  dispatched transaction. A successful plain limit-order submission appends exactly one
  entry of type \<open>submission\<close> that carries no order record, and returns the hash. A failed
  submission of either kind appends nothing.
\<close>

theorem submission_history_effect:
  "(handleStopLimitOrderSubmission h orderToSubmit overrides w = (Inr tx, w') \<longrightarrow>
      (\<exists>r. transactions w' = transactions w @
               [\<lparr>response = tx, summary = ''Order submission'', txType = ''submission'',
                 order = Some r\<rparr>]
          \<and> status r = Some ''open'' \<and> createdTxHash r = Some (toLowerCase (hash tx))))
   \<and> (handleStopLimitOrderSubmission h orderToSubmit overrides w = (Inl e, w') \<longrightarrow>
        transactions w' = transactions w)
   \<and> (handleLimitOrderSubmission hl w = (Inr hs, w'') \<longrightarrow>
        (\<exists>ltx s. hs = Some (hash ltx) \<and> transactions w'' = transactions w @
               [\<lparr>response = ltx, summary = s, txType = ''submission'', order = None\<rparr>]))
   \<and> (handleLimitOrderSubmission hl w = (Inl e', w'') \<longrightarrow> transactions w'' = transactions w)"
proof (intro conjI impI)
  assume "handleStopLimitOrderSubmission h orderToSubmit overrides w = (Inr tx, w')"
  then show "\<exists>r. transactions w' = transactions w @
               [\<lparr>response = tx, summary = ''Order submission'', txType = ''submission'',
                 order = Some r\<rparr>]
          \<and> status r = Some ''open'' \<and> createdTxHash r = Some (toLowerCase (hash tx))"
    by (auto simp: handleStopLimitOrderSubmission_def call_def addTransaction_def Let_def
        split: option.splits sum.splits if_splits)
next
  assume "handleStopLimitOrderSubmission h orderToSubmit overrides w = (Inl e, w')"
  then show "transactions w' = transactions w"
    by (auto simp: handleStopLimitOrderSubmission_def call_def addTransaction_def Let_def
        split: option.splits sum.splits if_splits)
next
  assume "handleLimitOrderSubmission hl w = (Inr hs, w'')"
  then show "\<exists>ltx s. hs = Some (hash ltx) \<and> transactions w'' = transactions w @
               [\<lparr>response = ltx, summary = s, txType = ''submission'', order = None\<rparr>]"
    by (auto simp: handleLimitOrderSubmission_def call_def addTransaction_def Let_def
        split: option.splits sum.splits if_splits)
next
  assume "handleLimitOrderSubmission hl w = (Inl e', w'')"
  then show "transactions w'' = transactions w"
    by (auto simp: handleLimitOrderSubmission_def call_def addTransaction_def Let_def
        split: option.splits sum.splits if_splits)
qed

theorem submission_history_effect_witness:
  "handleStopLimitOrderSubmission demo_hook demo_submit None empty_world =
     (Inr demo_tx, world_after_submission)
   \<and> (\<exists>r. transactions world_after_submission = transactions empty_world @
              [\<lparr>response = demo_tx, summary = ''Order submission'', txType = ''submission'',
                order = Some r\<rparr>]
          \<and> status r = Some ''open'' \<and> createdTxHash r = Some (toLowerCase (hash demo_tx)))
   \<and> toLowerCase (hash demo_tx) = ''0xabcd12''
   \<and> handleStopLimitOrderSubmission (demo_hook\<lparr>chainId := None\<rparr>) demo_submit None empty_world =
       (Inl (Error ''No chainId''), empty_world)
   \<and> handleLimitOrderSubmission demo_limit_hook empty_world =
       (Inr (Some ''0xAbCd12''), snd (handleLimitOrderSubmission demo_limit_hook empty_world))
   \<and> (\<exists>ltx s. Some ''0xAbCd12'' = Some (hash ltx) \<and>
         transactions (snd (handleLimitOrderSubmission demo_limit_hook empty_world)) =
           transactions empty_world @
             [\<lparr>response = ltx, summary = s, txType = ''submission'', order = None\<rparr>])
   \<and> handleLimitOrderSubmission (demo_limit_hook\<lparr>gelatoLimitOrders := None\<rparr>) empty_world =
       (Inl (Error ''Could not reach Gelato Limit Orders library''), empty_world)"
proof -
  have run1: "handleStopLimitOrderSubmission demo_hook demo_submit None empty_world =
     (Inr demo_tx, world_after_submission)"
    by (simp add: world_after_submission_def handleStopLimitOrderSubmission_def demo_defs
        handler_simps)
  have low: "toLowerCase (hash demo_tx) = ''0xabcd12''"
    by (simp add: demo_tx_def toLowerCase_def toLowerCase_char_def)
  have run2: "handleStopLimitOrderSubmission (demo_hook\<lparr>chainId := None\<rparr>) demo_submit None
      empty_world = (Inl (Error ''No chainId''), empty_world)"
    by (simp add: handleStopLimitOrderSubmission_def demo_defs handler_simps)
  have run3: "handleLimitOrderSubmission demo_limit_hook empty_world =
       (Inr (Some ''0xAbCd12''), snd (handleLimitOrderSubmission demo_limit_hook empty_world))"
    by (simp add: handleLimitOrderSubmission_def demo_limit_defs handler_simps)
  have run4: "handleLimitOrderSubmission (demo_limit_hook\<lparr>gelatoLimitOrders := None\<rparr>)
      empty_world = (Inl (Error ''Could not reach Gelato Limit Orders library''), empty_world)"
    by (simp add: handleLimitOrderSubmission_def demo_limit_defs handler_simps)
  note stop_ok = submission_history_effect[THEN conjunct1, rule_format, OF run1]
  note limit_ok = submission_history_effect[THEN conjunct2, THEN conjunct2, THEN conjunct1,
      rule_format, OF run3]
  from run1 stop_ok low run2 run3 limit_ok run4 show ?thesis by blast
qed

text \<open>
  Claim C5. When a precondition of a submission fails, the handler throws an error with
  one of its fixed messages and returns the world as it was: no call on the execution
  client or the signer, and no history entry. For the stop-limit handler the
  preconditions are the execution client, the chain id and the signer; for the plain
  limit-order handler the two currencies, the two raw amounts, the execution client and
  the chain id.
\<close>

theorem submission_precondition_failure:
  "((gelatoStopLimitOrders h = None \<or> \<not> truthy_num (chainId h) \<or>
     (\<exists>lib. gelatoStopLimitOrders h = Some lib \<and> signer lib = None)) \<longrightarrow>
    (\<exists>msg. handleStopLimitOrderSubmission h orderToSubmit overrides w = (Inl (Error msg), w) \<and>
       msg \<in> {''Could not reach Gelato Limit Orders library'', ''No chainId'', ''No signer''}))
   \<and>
   ((invalid_currency (input (currencies hl)) \<or> invalid_currency (output (currencies hl)) \<or>
     \<not> truthy_str (input (raw hl)) \<or> \<not> truthy_str (output (raw hl)) \<or>
     gelatoLimitOrders hl = None \<or> \<not> truthy_num (chainId hl)) \<longrightarrow>
    (\<exists>msg. handleLimitOrderSubmission hl w = (Inl (Error msg), w) \<and>
       msg \<in> {''Invalid input currency'', ''Invalid output currency'', ''Invalid input amount'',
              ''Invalid output amount'', ''Could not reach Gelato Limit Orders library'',
              ''No chainId''}))"
proof (intro conjI impI)
  assume "gelatoStopLimitOrders h = None \<or> \<not> truthy_num (chainId h) \<or>
     (\<exists>lib. gelatoStopLimitOrders h = Some lib \<and> signer lib = None)"
  then show "\<exists>msg. handleStopLimitOrderSubmission h orderToSubmit overrides w = (Inl (Error msg), w) \<and>
       msg \<in> {''Could not reach Gelato Limit Orders library'', ''No chainId'', ''No signer''}"
    by (auto simp: handleStopLimitOrderSubmission_def split: option.splits)
next
  assume "invalid_currency (input (currencies hl)) \<or> invalid_currency (output (currencies hl)) \<or>
     \<not> truthy_str (input (raw hl)) \<or> \<not> truthy_str (output (raw hl)) \<or>
     gelatoLimitOrders hl = None \<or> \<not> truthy_num (chainId hl)"
  then show "\<exists>msg. handleLimitOrderSubmission hl w = (Inl (Error msg), w) \<and>
       msg \<in> {''Invalid input currency'', ''Invalid output currency'', ''Invalid input amount'',
              ''Invalid output amount'', ''Could not reach Gelato Limit Orders library'',
              ''No chainId''}"
    by (auto simp: handleLimitOrderSubmission_def invalid_currency_def truthy_str_def
        truthy_num_def split: option.splits)
qed

theorem submission_precondition_failure_witness:
  "handleStopLimitOrderSubmission (demo_hook\<lparr>chainId := None\<rparr>) demo_submit None empty_world =
     (Inl (Error ''No chainId''), empty_world)
   \<and> handleLimitOrderSubmission (demo_limit_hook\<lparr>raw := \<lparr>input = Some '''', output = None\<rparr>\<rparr>)
        empty_world = (Inl (Error ''Invalid input amount''), empty_world)"
  using submission_precondition_failure[of "demo_hook\<lparr>chainId := None\<rparr>" demo_submit None
      empty_world "demo_limit_hook\<lparr>raw := \<lparr>input = Some '''', output = None\<rparr>\<rparr>"]
  by (simp add: demo_defs demo_limit_defs handleStopLimitOrderSubmission_def
      handleLimitOrderSubmission_def handler_simps invalid_currency_def)

text \<open>
  Claim C6. When a plain limit-order submission passes its preconditions, the minimum
  return it gives to \<open>submitLimitOrder\<close> is the raw output amount on an Ethereum chain,
  and on any other chain the value \<open>getFeeAndSlippageAdjustedMinReturn\<close> returns for the
  raw output amount: the handler's result is the outcome of \<open>submitLimitOrder\<close> called
  with that minimum return, and the call it makes carries it. When the adjustment throws,
  nothing is submitted.
\<close>

theorem limit_submission_min_return:
  assumes "input (currencies h) = Some ic" and "wrapped_address ic \<noteq> []"
    and "output (currencies h) = Some oc" and "wrapped_address oc \<noteq> []"
    and "input (raw h) = Some ri" and "ri \<noteq> []"
    and "output (raw h) = Some ro" and "ro \<noteq> []"
    and "gelatoLimitOrders h = Some lib" and "chainId h = Some c" and "c \<noteq> 0"
  shows "(isEthereumChain h c \<longrightarrow>
            handleLimitOrderSubmission h w =
              (case submitLimitOrder lib
                      (if isNative ic then NATIVE h else wrapped_address ic)
                      (if isNative oc then NATIVE h else wrapped_address oc) ri ro of
                 Inl e \<Rightarrow>
                   (Inl e,
                    call (SubmitLimitOrder (if isNative ic then NATIVE h else wrapped_address ic)
                            (if isNative oc then NATIVE h else wrapped_address oc) ri ro) w)
               | Inr tx \<Rightarrow>
                   (Inr (Some (hash tx)),
                    addTransaction tx (submission_summary h ic oc) ''submission'' None
                      (call (SubmitLimitOrder
                               (if isNative ic then NATIVE h else wrapped_address ic)
                               (if isNative oc then NATIVE h else wrapped_address oc) ri ro)
                         w)))
          \<and> calls (snd (handleLimitOrderSubmission h w)) =
              calls w @ [SubmitLimitOrder (if isNative ic then NATIVE h else wrapped_address ic)
                           (if isNative oc then NATIVE h else wrapped_address oc) ri ro])
       \<and> (\<not> isEthereumChain h c \<longrightarrow>
            (\<forall>m. getFeeAndSlippageAdjustedMinReturn lib ro = Inr m \<longrightarrow>
               handleLimitOrderSubmission h w =
                 (case submitLimitOrder lib
                         (if isNative ic then NATIVE h else wrapped_address ic)
                         (if isNative oc then NATIVE h else wrapped_address oc) ri m of
                    Inl e \<Rightarrow>
                      (Inl e,
                       call (SubmitLimitOrder
                               (if isNative ic then NATIVE h else wrapped_address ic)
                               (if isNative oc then NATIVE h else wrapped_address oc) ri m)
                         (call (GetFeeAndSlippageAdjustedMinReturn ro) w))
                  | Inr tx \<Rightarrow>
                      (Inr (Some (hash tx)),
                       addTransaction tx (submission_summary h ic oc) ''submission'' None
                         (call (SubmitLimitOrder
                                  (if isNative ic then NATIVE h else wrapped_address ic)
                                  (if isNative oc then NATIVE h else wrapped_address oc) ri m)
                            (call (GetFeeAndSlippageAdjustedMinReturn ro) w))))
               \<and> calls (snd (handleLimitOrderSubmission h w)) =
                 calls w @ [GetFeeAndSlippageAdjustedMinReturn ro,
                            SubmitLimitOrder (if isNative ic then NATIVE h else wrapped_address ic)
                              (if isNative oc then NATIVE h else wrapped_address oc) ri m])
          \<and> (\<forall>e. getFeeAndSlippageAdjustedMinReturn lib ro = Inl e \<longrightarrow>
               handleLimitOrderSubmission h w =
                 (Inl e, call (GetFeeAndSlippageAdjustedMinReturn ro) w)))"
  using assms
  by (auto simp: handleLimitOrderSubmission_def call_def addTransaction_def Let_def
      split: sum.splits)

theorem limit_submission_min_return_witness:
  "chainId echo_limit_hook = Some 137 \<and> \<not> isEthereumChain echo_limit_hook 137
   \<and> gelatoLimitOrders echo_limit_hook = Some echo_limit_client
   \<and> output (raw echo_limit_hook) = Some ''500000000000000000''
   \<and> getFeeAndSlippageAdjustedMinReturn echo_limit_client ''500000000000000000'' =
       Inr ''497000000000000000''
   \<and> isEthereumChain (echo_limit_hook\<lparr>chainId := Some 1\<rparr>) 1
   \<and> handleLimitOrderSubmission echo_limit_hook empty_world =
     (Inr (Some ''497000000000000000''),
      \<lparr>calls = [GetFeeAndSlippageAdjustedMinReturn ''500000000000000000'',
                SubmitLimitOrder ''0xusdc'' ''0xweth'' ''1000000000'' ''497000000000000000''],
       transactions = [\<lparr>response = \<lparr>hash = ''497000000000000000''\<rparr>,
                        summary = ''Swap 1000 USDC for 0.5 WETH when 1 USDC = 0.0005 WETH'',
                        txType = ''submission'', order = None\<rparr>]\<rparr>)
   \<and> handleLimitOrderSubmission (echo_limit_hook\<lparr>chainId := Some 1\<rparr>) empty_world =
     (Inr (Some ''500000000000000000''),
      \<lparr>calls = [SubmitLimitOrder ''0xusdc'' ''0xweth'' ''1000000000'' ''500000000000000000''],
       transactions = [\<lparr>response = \<lparr>hash = ''500000000000000000''\<rparr>,
                        summary = ''Swap 1000 USDC for 0.5 WETH when 1 USDC = 0.0005 WETH'',
                        txType = ''submission'', order = None\<rparr>]\<rparr>)"
  using limit_submission_min_return[of echo_limit_hook USDC WETH "''1000000000''"
      "''500000000000000000''" echo_limit_client 137 empty_world]
    limit_submission_min_return[of "echo_limit_hook\<lparr>chainId := Some 1\<rparr>" USDC WETH
      "''1000000000''" "''500000000000000000''" echo_limit_client 1 empty_world]
  by (simp add: echo_limit_hook_def echo_limit_client_def demo_limit_defs call_def
      addTransaction_def submission_summary_def interpolate_def)

section \<open>Cancellation\<close>

text \<open>
  Claim C2. In a cancellation that passes the handler's preconditions (execution client,
  chain id, account), the flag is the conjunction of the order's module, input token,
  owner, witness and data being set; it is false when any of them is missing; and the
  handler makes exactly one call on the execution client, \<open>cancelLimitOrder\<close> with the
  order and that flag, and returns whatever the call returns: a missing field is not
  rejected locally.
\<close>

theorem cancellation_passes_existsOnChain:
  assumes "gelatoStopLimitOrders h = Some lib" and "truthy_num (chainId h)"
    and "truthy_str (account h)"
  shows "checkIfOrderExists ord =
           (truthy_str (module ord) \<and> truthy_str (inputToken ord) \<and> truthy_str (owner ord) \<and>
            truthy_str (witness ord) \<and> truthy_str (data ord))
       \<and> ((module ord = None \<or> inputToken ord = None \<or> owner ord = None \<or>
            witness ord = None \<or> data ord = None) \<longrightarrow> \<not> checkIfOrderExists ord)
       \<and> (\<exists>ov. calls (snd (handleStopLimitOrderCancellation h ord details overrides w)) =
                   calls w @ [CancelStopLimitOrder ord (checkIfOrderExists ord) ov]
                \<and> fst (handleStopLimitOrderCancellation h ord details overrides w) =
                   cancelLimitOrder lib ord (checkIfOrderExists ord) ov)"
  using assms
  by (auto simp: checkIfOrderExists_def handleStopLimitOrderCancellation_def Let_def call_def
      addTransaction_def truthy_str_def split: sum.splits option.splits)

theorem cancellation_passes_existsOnChain_witness:
  "witness order_without_witness = None
   \<and> \<not> checkIfOrderExists order_without_witness
   \<and> calls (snd (handleStopLimitOrderCancellation demo_hook order_without_witness None None
                   empty_world)) =
       [CancelStopLimitOrder order_without_witness False
          \<lparr>gasPrice = Some 30, gasLimit = Some 600000\<rparr>]
   \<and> fst (handleStopLimitOrderCancellation demo_hook order_without_witness None None
             empty_world) = Inr \<lparr>hash = ''0xCAFE99''\<rparr>"
  using cancellation_passes_existsOnChain[of demo_hook demo_client order_without_witness None
      None empty_world]
  by (simp add: demo_defs order_without_witness_def handleStopLimitOrderCancellation_def
      handler_simps checkIfOrderExists_def)

text \<open>
  Claim C3. When a cancellation is dispatched, the entry handed to the history carries
  the order it was given with status \<open>cancelled\<close>, \<open>cancelledTxHash\<close> the lower-cased hash
  of the dispatched transaction and \<open>updatedAt\<close> the current time in seconds; every other
  field is that of the input record.
\<close>

theorem cancellation_record:
  assumes "handleStopLimitOrderCancellation h ord details overrides w = (Inr tx, w')"
  shows "\<exists>r. transactions w' = transactions w @
              [\<lparr>response = tx, summary = cancellation_summary details,
                txType = ''cancellation'', order = Some r\<rparr>]
           \<and> r = ord\<lparr>updatedAt := Some (toString (round_seconds (Date_now h))),
                     status := Some ''cancelled'',
                     cancelledTxHash := Some (toLowerCase (hash tx))\<rparr>
           \<and> status r = Some ''cancelled''
           \<and> cancelledTxHash r = Some (toLowerCase (hash tx))
           \<and> updatedAt r = Some (toString (round_seconds (Date_now h)))
           \<and> order_id r = order_id ord \<and> owner r = owner ord
           \<and> inputToken r = inputToken ord \<and> outputToken r = outputToken ord
           \<and> inputAmount r = inputAmount ord \<and> minReturn r = minReturn ord
           \<and> maxReturn r = maxReturn ord \<and> module r = module ord
           \<and> handler r = handler ord \<and> data r = data ord \<and> witness r = witness ord
           \<and> secret r = secret ord \<and> createdTxHash r = createdTxHash ord
           \<and> executedTxHash r = executedTxHash ord \<and> createdAt r = createdAt ord"
  using assms
  by (auto simp: handleStopLimitOrderCancellation_def Let_def call_def
      addTransaction_def split: sum.splits option.splits if_splits)

theorem cancellation_record_witness:
  "fst (handleStopLimitOrderCancellation demo_hook unknown_order None None empty_world) =
     Inr \<lparr>hash = ''0xCAFE99''\<rparr>
   \<and> transactions (snd (handleStopLimitOrderCancellation demo_hook unknown_order None None
                          empty_world)) =
       [\<lparr>response = \<lparr>hash = ''0xCAFE99''\<rparr>, summary = ''Order cancellation'',
         txType = ''cancellation'',
         order = Some (unknown_order\<lparr>updatedAt := Some ''1700000000'',
                                      status := Some ''cancelled'',
                                      cancelledTxHash := Some ''0xcafe99''\<rparr>)\<rparr>]"
proof -
  have res: "fst (handleStopLimitOrderCancellation demo_hook unknown_order None None empty_world) =
     Inr \<lparr>hash = ''0xCAFE99''\<rparr>"
    by (simp add: handleStopLimitOrderCancellation_def demo_defs unknown_order_def handler_simps)
  from cancellation_record[OF run_cancel]
  have "transactions (snd (handleStopLimitOrderCancellation demo_hook unknown_order None None
                          empty_world)) =
       [\<lparr>response = \<lparr>hash = ''0xCAFE99''\<rparr>, summary = ''Order cancellation'',
         txType = ''cancellation'',
         order = Some (unknown_order\<lparr>updatedAt := Some ''1700000000'',
                                      status := Some ''cancelled'',
                                      cancelledTxHash := Some ''0xcafe99''\<rparr>)\<rparr>]"
    by (simp add: lower_cafe demo_now cancellation_summary_def demo_hook_def empty_world_def)
  with res show ?thesis by blast
qed

text \<open>
  Claim C9, as the claim states it, fails: on an empty history, the cancellation of an
  order that no entry has created is dispatched and recorded, and the history then holds
  a cancelled record for an identifier that was never appended.
\<close>

theorem cancellation_without_creation:
  "find_record (transactions empty_world) ''0xnever'' = None
   \<and> fst (handleStopLimitOrderCancellation demo_hook unknown_order None None empty_world) =
       Inr \<lparr>hash = ''0xCAFE99''\<rparr>
   \<and> order_status (transactions (snd (handleStopLimitOrderCancellation demo_hook unknown_order
         None None empty_world))) ''0xnever'' = Some ''cancelled''"
  by (simp add: order_status_def find_record_def has_witness_def
      handleStopLimitOrderCancellation_def demo_defs unknown_order_def handler_simps)

text \<open>
  Claim C9, amended. The cancellation handler does not look the order up in the history
  and does not require an entry that created it: what it returns, the calls it makes and
  the entry it appends are the same whatever the history holds, computed from the order
  record its caller supplies.
\<close>

theorem cancellation_ignores_history:
  "handleStopLimitOrderCancellation h ord details overrides w =
     (fst (handleStopLimitOrderCancellation h ord details overrides empty_world),
      \<lparr>calls = calls w @
                calls (snd (handleStopLimitOrderCancellation h ord details overrides empty_world)),
       transactions = transactions w @
                transactions (snd (handleStopLimitOrderCancellation h ord details overrides
                                     empty_world))\<rparr>)"
  by (simp add: handleStopLimitOrderCancellation_def call_def addTransaction_def Let_def
      empty_world_def split: option.splits sum.splits)

section \<open>Status transitions\<close>

lemma find_record_snoc:
  "find_record (hist @ [e]) wit = (if has_witness wit e then order e else find_record hist wit)"
  by (simp add: find_record_def)

lemma world_after_cancellation_eq:
  "world_after_cancellation =
     \<lparr>calls = [EncodeStopLimitOrderSubmissionWithSecret ''0xusdc'' ''0xweth'' ''1000000000''
                 ''500000000000000000'' 40 ''0xowner'',
               SendTransaction \<lparr>gasPrice = Some 30, gasLimit = None, to = ''0xcore'',
                 tx_data = ''0xencoded'', tx_value = 0\<rparr>,
               CancelStopLimitOrder submitted_order True
                 \<lparr>gasPrice = Some 30, gasLimit = Some 600000\<rparr>],
      transactions = [\<lparr>response = demo_tx, summary = ''Order submission'',
                       txType = ''submission'', order = Some submitted_order\<rparr>,
                      \<lparr>response = \<lparr>hash = ''0xCAFE99''\<rparr>, summary = ''Order cancellation'',
                       txType = ''cancellation'',
                       order = Some (submitted_order\<lparr>status := Some ''cancelled'',
                                 cancelledTxHash := Some ''0xcafe99''\<rparr>)\<rparr>]\<rparr>"
  by (simp add: world_after_cancellation_def world_after_submission_eq
      handleStopLimitOrderCancellation_def checkIfOrderExists_def cancellation_summary_def
      submitted_order_def demo_order_def demo_hook_def demo_client_def handler_simps
      lower_cafe demo_now)

lemma world_reopened_eq:
  "transactions world_reopened =
     transactions world_after_cancellation @
       [\<lparr>response = demo_tx, summary = ''Order submission'', txType = ''submission'',
         order = Some submitted_order\<rparr>]"
  by (simp add: world_reopened_def world_after_cancellation_eq submitted_order_def
      handleStopLimitOrderSubmission_def demo_hook_def demo_client_def demo_signer_def
      demo_submit_def demo_payload_def handler_simps toLowerCase_def toLowerCase_char_def
      demo_tx_def demo_now)

lemma stop_submission_failure:
  assumes "handleStopLimitOrderSubmission h orderToSubmit overrides w = (Inl e, w')"
  shows "transactions w' = transactions w"
  using assms
  by (auto simp: handleStopLimitOrderSubmission_def call_def addTransaction_def Let_def
      split: option.splits sum.splits if_splits)

lemma stop_submission_success:
  assumes "handleStopLimitOrderSubmission h orderToSubmit overrides w = (Inr tx, w')"
  shows "\<exists>lib wit payload ord.
            gelatoStopLimitOrders h = Some lib \<and>
            encodeStopLimitOrderSubmissionWithSecret lib
              (s_inputToken orderToSubmit) (s_outputToken orderToSubmit)
              (s_inputAmount orderToSubmit) (s_outputAmount orderToSubmit)
              (s_slippage orderToSubmit) (s_owner orderToSubmit) = Inr (wit, payload, ord) \<and>
            transactions w' = transactions w @
              [\<lparr>response = tx, summary = ''Order submission'', txType = ''submission'',
                order = Some (ord\<lparr>createdTxHash := Some (toLowerCase (hash tx)),
                                   witness := Some wit, status := Some ''open'',
                                   updatedAt :=
                                     Some (toString (round_seconds (Date_now h)))\<rparr>)\<rparr>]"
  using assms
  by (auto simp: handleStopLimitOrderSubmission_def call_def addTransaction_def Let_def
      split: option.splits sum.splits if_splits)

lemma stop_submission_effect:
  assumes "handleStopLimitOrderSubmission h orderToSubmit overrides w = (res, w')"
  shows "transactions w' = transactions w \<or>
         (\<exists>lib wit payload ord tx.
            gelatoStopLimitOrders h = Some lib \<and>
            encodeStopLimitOrderSubmissionWithSecret lib
              (s_inputToken orderToSubmit) (s_outputToken orderToSubmit)
              (s_inputAmount orderToSubmit) (s_outputAmount orderToSubmit)
              (s_slippage orderToSubmit) (s_owner orderToSubmit) = Inr (wit, payload, ord) \<and>
            res = Inr tx \<and>
            transactions w' = transactions w @
              [\<lparr>response = tx, summary = ''Order submission'', txType = ''submission'',
                order = Some (ord\<lparr>createdTxHash := Some (toLowerCase (hash tx)),
                                   witness := Some wit, status := Some ''open'',
                                   updatedAt :=
                                     Some (toString (round_seconds (Date_now h)))\<rparr>)\<rparr>])"
proof (cases res)
  case (Inl e)
  with assms have "transactions w' = transactions w"
    by (rule_tac stop_submission_failure) simp
  then show ?thesis by simp
next
  case (Inr tx)
  with assms have "handleStopLimitOrderSubmission h orderToSubmit overrides w = (Inr tx, w')"
    by simp
  from stop_submission_success[OF this] Inr show ?thesis
    by blast
qed

text \<open>What a submission under a witness leaves in the history.\<close>

lemma submits_effect:
  assumes "submits w wit w'"
  shows "\<exists>e r. transactions w' = transactions w @ [e] \<and> txType e = ''submission'' \<and>
           order e = Some r \<and> witness r = Some wit \<and> status r = Some ''open''"
  using assms
proof (cases rule: submits.cases)
  case (1 h lib orderToSubmit payload ord overrides tx)
  from stop_submission_success[OF 1(3)] 1(1,2) show ?thesis
    by auto
qed

lemma submits_opens:
  assumes "submits w wit w'"
  shows "order_status (transactions w') wit = Some ''open''"
proof -
  from submits_effect[OF assms]
  obtain e r where "transactions w' = transactions w @ [e]" "order e = Some r"
      "witness r = Some wit" "status r = Some ''open''"
    by blast
  then show ?thesis
    by (simp add: order_status_def find_record_snoc has_witness_def)
qed

lemma stop_cancellation_effect:
  assumes "handleStopLimitOrderCancellation h ord details overrides w = (res, w')"
  shows "transactions w' = transactions w \<or>
         (\<exists>e r. transactions w' = transactions w @ [e] \<and> order e = Some r \<and>
            status r = Some ''cancelled'')"
  using assms
  by (auto simp: handleStopLimitOrderCancellation_def call_def addTransaction_def Let_def
      split: option.splits sum.splits if_splits)

lemma limit_submission_effect:
  assumes "handleLimitOrderSubmission hl w = (res, w')"
  shows "transactions w' = transactions w \<or>
         (\<exists>e. transactions w' = transactions w @ [e] \<and> order e = None)"
  using assms
  by (auto simp: handleLimitOrderSubmission_def call_def addTransaction_def Let_def
      split: option.splits sum.splits if_splits)

lemma limit_cancellation_effect:
  assumes "handleLimitOrderCancellation hl a b c d w = (res, w')"
  shows "transactions w' = transactions w \<or>
         (\<exists>e. transactions w' = transactions w @ [e] \<and> order e = None)"
  using assms
  by (auto simp: handleLimitOrderCancellation_def call_def addTransaction_def Let_def
      split: option.splits sum.splits if_splits)

text \<open>
  One handler operation leaves the status of an existing record, makes it \<open>cancelled\<close>, or
  is a submission under the record's own witness and makes it \<open>open\<close>.
\<close>

lemma handler_step_status:
  assumes "handler_step w w'" and "order_status (transactions w) wit = Some st"
  shows "order_status (transactions w') wit = Some st \<or>
         order_status (transactions w') wit = Some ''cancelled'' \<or>
         (submits w wit w' \<and> order_status (transactions w') wit = Some ''open'')"
  using assms
proof (cases rule: handler_step.cases)
  case (stop_limit_submission h orderToSubmit overrides res)
  from stop_submission_effect[OF stop_limit_submission(1)]
  show ?thesis
  proof
    assume "transactions w' = transactions w"
    with assms(2) show ?thesis by simp
  next
    assume "\<exists>lib wit payload ord tx.
            gelatoStopLimitOrders h = Some lib \<and>
            encodeStopLimitOrderSubmissionWithSecret lib
              (s_inputToken orderToSubmit) (s_outputToken orderToSubmit)
              (s_inputAmount orderToSubmit) (s_outputAmount orderToSubmit)
              (s_slippage orderToSubmit) (s_owner orderToSubmit) = Inr (wit, payload, ord) \<and>
            res = Inr tx \<and>
            transactions w' = transactions w @
              [\<lparr>response = tx, summary = ''Order submission'', txType = ''submission'',
                order = Some (ord\<lparr>createdTxHash := Some (toLowerCase (hash tx)),
                                   witness := Some wit, status := Some ''open'',
                                   updatedAt :=
                                     Some (toString (round_seconds (Date_now h)))\<rparr>)\<rparr>]"
    then obtain lib wit' payload ord tx where lib: "gelatoStopLimitOrders h = Some lib"
      and enc: "encodeStopLimitOrderSubmissionWithSecret lib
              (s_inputToken orderToSubmit) (s_outputToken orderToSubmit)
              (s_inputAmount orderToSubmit) (s_outputAmount orderToSubmit)
              (s_slippage orderToSubmit) (s_owner orderToSubmit) = Inr (wit', payload, ord)"
      and res: "res = Inr tx"
      and tr: "transactions w' = transactions w @
              [\<lparr>response = tx, summary = ''Order submission'', txType = ''submission'',
                order = Some (ord\<lparr>createdTxHash := Some (toLowerCase (hash tx)),
                                   witness := Some wit', status := Some ''open'',
                                   updatedAt :=
                                     Some (toString (round_seconds (Date_now h)))\<rparr>)\<rparr>]"
      by blast
    from stop_limit_submission(1) res
    have run: "handleStopLimitOrderSubmission h orderToSubmit overrides w = (Inr tx, w')"
      by simp
    have sub: "submits w wit' w'"
      by (rule submits.intros[OF lib enc run])
    show ?thesis
    proof (cases "wit' = wit")
      case True
      with sub submits_opens[OF sub] show ?thesis by simp
    next
      case False
      with tr assms(2) show ?thesis
        by (simp add: order_status_def find_record_snoc has_witness_def)
    qed
  qed
next
  case (stop_limit_cancellation h orderToCancel details overrides res)
  from stop_cancellation_effect[OF stop_limit_cancellation(1)] assms(2) show ?thesis
    by (auto simp: order_status_def find_record_snoc has_witness_def
        split: option.splits if_splits)
next
  case (limit_submission hl hres)
  from limit_submission_effect[OF limit_submission(1)] assms(2) show ?thesis
    by (auto simp: order_status_def find_record_snoc has_witness_def
        split: option.splits if_splits)
next
  case (limit_cancellation hl fromCurrency toCurrency amount wit' hres)
  from limit_cancellation_effect[OF limit_cancellation(1)] assms(2) show ?thesis
    by (auto simp: order_status_def find_record_snoc has_witness_def
        split: option.splits if_splits)
qed

lemma handler_steps_status:
  assumes "handler_step\<^sup>*\<^sup>* w w'" and "order_status (transactions w) wit = Some st"
  shows "order_status (transactions w') wit = Some st \<or>
         order_status (transactions w') wit = Some ''cancelled'' \<or>
         order_status (transactions w') wit = Some ''open''"
  using assms
proof (induction rule: rtranclp_induct)
  case base
  then show ?case by simp
next
  case (step y z)
  from step.IH[OF step.prems]
  obtain s where "order_status (transactions y) wit = Some s"
    by blast
  from handler_step_status[OF step.hyps(2) this] step.IH[OF step.prems] this
  show ?case by auto
qed

text \<open>A record in the history stays in the history.\<close>

lemma handler_step_keeps_record:
  assumes "handler_step w w'" and "find_record (transactions w) wit \<noteq> None"
  shows "find_record (transactions w') wit \<noteq> None"
  using assms
proof (cases rule: handler_step.cases)
  case (stop_limit_submission h orderToSubmit overrides res)
  from stop_submission_effect[OF stop_limit_submission(1)] assms(2) show ?thesis
    by (auto simp: find_record_snoc has_witness_def split: option.splits if_splits)
next
  case (stop_limit_cancellation h orderToCancel details overrides res)
  from stop_cancellation_effect[OF stop_limit_cancellation(1)] assms(2) show ?thesis
    by (auto simp: find_record_snoc has_witness_def split: option.splits if_splits)
next
  case (limit_submission hl hres)
  from limit_submission_effect[OF limit_submission(1)] assms(2) show ?thesis
    by (auto simp: find_record_snoc has_witness_def split: option.splits if_splits)
next
  case (limit_cancellation hl fromCurrency toCurrency amount wit' hres)
  from limit_cancellation_effect[OF limit_cancellation(1)] assms(2) show ?thesis
    by (auto simp: find_record_snoc has_witness_def split: option.splits if_splits)
qed

lemma fresh_step_status:
  assumes "fresh_step w w'" and "order_status (transactions w) wit = Some st"
  shows "order_status (transactions w') wit = Some st \<or>
         order_status (transactions w') wit = Some ''cancelled''"
proof -
  from assms(1) have hs: "handler_step w w'"
    and fr: "\<And>x. submits w x w' \<Longrightarrow> find_record (transactions w) x = None"
    by (simp_all add: fresh_step_def)
  from assms(2) have "find_record (transactions w) wit \<noteq> None"
    by (auto simp: order_status_def split: option.splits)
  with fr[of wit] have "\<not> submits w wit w'"
    by auto
  with handler_step_status[OF hs assms(2)] show ?thesis
    by blast
qed

lemma fresh_steps_status:
  assumes "fresh_step\<^sup>*\<^sup>* w w'" and "order_status (transactions w) wit = Some st"
  shows "order_status (transactions w') wit = Some st \<or>
         order_status (transactions w') wit = Some ''cancelled''"
  using assms
proof (induction rule: rtranclp_induct)
  case base
  then show ?case by simp
next
  case (step y z)
  from step.IH[OF step.prems] show ?case
  proof
    assume "order_status (transactions y) wit = Some st"
    from fresh_step_status[OF step.hyps(2) this] show ?thesis .
  next
    assume "order_status (transactions y) wit = Some ''cancelled''"
    from fresh_step_status[OF step.hyps(2) this] show ?thesis by blast
  qed
qed

lemma submission_creates_open:
  assumes "handleStopLimitOrderSubmission h orderToSubmit overrides w0 = (Inr tx, w1)"
  shows "\<exists>wit. submits w0 wit w1 \<and> order_status (transactions w1) wit = Some ''open''"
proof -
  from stop_submission_success[OF assms]
  obtain lib wit payload ord where lib: "gelatoStopLimitOrders h = Some lib"
    and enc: "encodeStopLimitOrderSubmissionWithSecret lib
              (s_inputToken orderToSubmit) (s_outputToken orderToSubmit)
              (s_inputAmount orderToSubmit) (s_outputAmount orderToSubmit)
              (s_slippage orderToSubmit) (s_owner orderToSubmit) = Inr (wit, payload, ord)"
    by blast
  have sub: "submits w0 wit w1"
    by (rule submits.intros[OF lib enc assms])
  with submits_opens[OF sub] show ?thesis by blast
qed

lemma cancellation_makes_cancelled:
  assumes "handleStopLimitOrderCancellation h ord details overrides w0 = (Inr tx, w1)"
    and "witness ord = Some wit"
  shows "order_status (transactions w1) wit = Some ''cancelled''"
  using assms
  by (auto simp: handleStopLimitOrderCancellation_def call_def addTransaction_def Let_def
      order_status_def find_record_snoc has_witness_def
      split: option.splits sum.splits if_splits)

lemma demo_resubmission_step: "handler_step world_after_cancellation world_reopened"
  by (rule handler_step.stop_limit_submission[of demo_hook demo_submit None
        world_after_cancellation
        "fst (handleStopLimitOrderSubmission demo_hook demo_submit None
                world_after_cancellation)"])
     (simp add: world_reopened_def)

lemma demo_cancellation_step: "handler_step world_after_submission world_after_cancellation"
  by (rule handler_step.stop_limit_cancellation[of demo_hook submitted_order None None
        world_after_submission
        "fst (handleStopLimitOrderCancellation demo_hook submitted_order None None
                world_after_submission)"])
     (simp add: world_after_cancellation_def)

lemma demo_cancellation_fresh: "fresh_step world_after_submission world_after_cancellation"
proof -
  have "\<not> submits world_after_submission x world_after_cancellation" for x
  proof
    assume "submits world_after_submission x world_after_cancellation"
    from submits_effect[OF this] show False
      by (auto simp: world_after_submission_eq world_after_cancellation_eq)
  qed
  with demo_cancellation_step show ?thesis
    by (simp add: fresh_step_def)
qed

text \<open>
  Claim C8, as the claim states it, fails under the step relation of the handlers. The
  record under witness \<open>0xwitness\<close> is \<open>cancelled\<close> after the demo submission and its
  cancellation; one more submission, for which the client returns the same witness, is a
  handler step and takes the record back to \<open>open\<close>. And a record need not start at
  \<open>open\<close>: on the empty history the cancellation of an order nothing created is a handler
  step, after which the record under \<open>0xnever\<close>, absent before, is \<open>cancelled\<close>.
\<close>

theorem status_returns_to_open:
  "order_status (transactions world_after_cancellation) ''0xwitness'' = Some ''cancelled''
   \<and> handler_step world_after_cancellation world_reopened
   \<and> order_status (transactions world_reopened) ''0xwitness'' = Some ''open''
   \<and> order_status (transactions empty_world) ''0xnever'' = None
   \<and> handler_step empty_world
       (snd (handleStopLimitOrderCancellation demo_hook unknown_order None None empty_world))
   \<and> order_status (transactions (snd (handleStopLimitOrderCancellation demo_hook unknown_order
         None None empty_world))) ''0xnever'' = Some ''cancelled''"
proof -
  have a: "order_status (transactions world_after_cancellation) ''0xwitness'' = Some ''cancelled''"
    by (simp add: world_after_cancellation_eq order_status_def find_record_def has_witness_def
        submitted_order_def)
  have b: "order_status (transactions world_reopened) ''0xwitness'' = Some ''open''"
    by (simp add: world_reopened_eq order_status_def find_record_snoc has_witness_def
        submitted_order_def)
  have c: "order_status (transactions empty_world) ''0xnever'' = None"
    by (simp add: order_status_def find_record_def empty_world_def)
  have d: "handler_step empty_world
       (snd (handleStopLimitOrderCancellation demo_hook unknown_order None None empty_world))"
    by (rule handler_step.stop_limit_cancellation[of demo_hook unknown_order None None
          empty_world
          "fst (handleStopLimitOrderCancellation demo_hook unknown_order None None
                  empty_world)"])
       simp
  have e: "order_status (transactions (snd (handleStopLimitOrderCancellation demo_hook
         unknown_order None None empty_world))) ''0xnever'' = Some ''cancelled''"
    by (simp add: order_status_def find_record_def has_witness_def
        handleStopLimitOrderCancellation_def demo_hook_def demo_client_def demo_order_def
        empty_world_def unknown_order_def handler_simps)
  from a demo_resubmission_step b c d e show ?thesis
    by (intro conjI)
qed

text \<open>
  Claim C8, amended. Over the history, with a record identified by its witness and its
  status read from the latest entry for that witness: a successful stop-limit submission
  leaves the record under the witness the client returned with status \<open>open\<close>, whatever
  the history held for that witness; a successful cancellation leaves the record of the
  order it was given with status \<open>cancelled\<close>, whether or not the history held it. One
  handler operation, successful or failed, leaves the status of an existing record as it
  was, makes it \<open>cancelled\<close>, or is a submission under the record's own witness and makes
  it \<open>open\<close>; over any sequence of handler operations the status is the one it was,
  \<open>cancelled\<close> or \<open>open\<close>, so no handler writes \<open>executed\<close>. Along sequences in which no
  submission comes under a witness the history already holds, a record keeps its status
  or has become \<open>cancelled\<close>, and a record that has left \<open>open\<close> is never \<open>open\<close> again.
\<close>

theorem status_transitions_by_handlers:
  "(handleStopLimitOrderSubmission h orderToSubmit overrides w0 = (Inr tx, w1) \<longrightarrow>
      (\<exists>nwit. submits w0 nwit w1 \<and> order_status (transactions w1) nwit = Some ''open''))
   \<and> (handleStopLimitOrderCancellation hc ord details coverrides wc = (Inr ctx, wc') \<longrightarrow>
        witness ord = Some cwit \<longrightarrow> order_status (transactions wc') cwit = Some ''cancelled'')
   \<and> (handler_step w w' \<longrightarrow> order_status (transactions w) wit = Some st \<longrightarrow>
        order_status (transactions w') wit = Some st \<or>
        order_status (transactions w') wit = Some ''cancelled'' \<or>
        (submits w wit w' \<and> order_status (transactions w') wit = Some ''open''))
   \<and> (handler_step\<^sup>*\<^sup>* u u' \<longrightarrow> order_status (transactions u) uwit = Some ust \<longrightarrow>
        order_status (transactions u') uwit = Some ust \<or>
        order_status (transactions u') uwit = Some ''cancelled'' \<or>
        order_status (transactions u') uwit = Some ''open'')
   \<and> (fresh_step\<^sup>*\<^sup>* v v' \<longrightarrow> order_status (transactions v) vwit = Some vst \<longrightarrow>
        order_status (transactions v') vwit = Some vst \<or>
        order_status (transactions v') vwit = Some ''cancelled'')"
  using submission_creates_open[of h orderToSubmit overrides w0 tx w1]
    cancellation_makes_cancelled[of hc ord details coverrides wc ctx wc' cwit]
    handler_step_status[of w w' wit st] handler_steps_status[of u u' uwit ust]
    fresh_steps_status[of v v' vwit vst]
  by blast

theorem status_transitions_by_handlers_witness:
  "handleStopLimitOrderSubmission demo_hook demo_submit None empty_world =
     (Inr demo_tx, world_after_submission)
   \<and> submits empty_world ''0xwitness'' world_after_submission
   \<and> order_status (transactions world_after_submission) ''0xwitness'' = Some ''open''
   \<and> handleStopLimitOrderCancellation demo_hook submitted_order None None
       world_after_submission = (Inr \<lparr>hash = ''0xCAFE99''\<rparr>, world_after_cancellation)
   \<and> witness submitted_order = Some ''0xwitness''
   \<and> fresh_step\<^sup>*\<^sup>* world_after_submission world_after_cancellation
   \<and> order_status (transactions world_after_cancellation) ''0xwitness'' = Some ''cancelled''
   \<and> handler_step world_after_cancellation world_reopened
   \<and> handler_step\<^sup>*\<^sup>* world_after_submission world_reopened
   \<and> submits world_after_cancellation ''0xwitness'' world_reopened
   \<and> order_status (transactions world_reopened) ''0xwitness'' = Some ''open''"
proof -
  have run: "handleStopLimitOrderSubmission demo_hook demo_submit None empty_world =
     (Inr demo_tx, world_after_submission)"
    by (simp add: world_after_submission_def handleStopLimitOrderSubmission_def demo_hook_def
        demo_client_def demo_signer_def handler_simps)
  have cancel: "handleStopLimitOrderCancellation demo_hook submitted_order None None
       world_after_submission = (Inr \<lparr>hash = ''0xCAFE99''\<rparr>, world_after_cancellation)"
    by (simp add: world_after_cancellation_def handleStopLimitOrderCancellation_def
        demo_hook_def demo_client_def handler_simps)
  have wit: "witness submitted_order = Some ''0xwitness''"
    by (simp add: submitted_order_def)
  have sub: "submits empty_world ''0xwitness'' world_after_submission"
    by (rule submits.intros[of demo_hook demo_client demo_submit "''0xwitness''" demo_payload
          demo_order None empty_world demo_tx world_after_submission, OF _ _ run])
       (simp_all add: demo_hook_def demo_client_def)
  have opened: "order_status (transactions world_after_submission) ''0xwitness'' = Some ''open''"
    by (simp add: world_after_submission_eq order_status_def find_record_def has_witness_def
        submitted_order_def)
  have fresh: "fresh_step\<^sup>*\<^sup>* world_after_submission world_after_cancellation"
    using demo_cancellation_fresh by (rule r_into_rtranclp)
  have steps: "handler_step\<^sup>*\<^sup>* world_after_submission world_reopened"
    using demo_cancellation_step demo_resubmission_step by (meson rtranclp.simps)
  have not_open: "order_status (transactions world_after_cancellation) ''0xwitness'' \<noteq>
      Some ''open''"
    by (simp add: world_after_cancellation_eq order_status_def find_record_def has_witness_def
        submitted_order_def)
  have not_cancelled: "order_status (transactions world_reopened) ''0xwitness'' \<noteq>
      Some ''cancelled''"
    by (simp add: world_reopened_eq order_status_def find_record_snoc has_witness_def
        submitted_order_def)
  note inst = status_transitions_by_handlers[of demo_hook demo_submit None empty_world demo_tx
      world_after_submission demo_hook submitted_order None None world_after_submission
      "\<lparr>hash = ''0xCAFE99''\<rparr>" world_after_cancellation "''0xwitness''"
      world_after_cancellation world_reopened "''0xwitness''" "''cancelled''"
      world_after_submission world_reopened "''0xwitness''" "''open''"
      world_after_submission world_after_cancellation "''0xwitness''" "''open''"]
  from inst cancel wit
  have cancelled: "order_status (transactions world_after_cancellation) ''0xwitness'' =
      Some ''cancelled''"
    by blast
  from inst demo_resubmission_step cancelled not_cancelled
  have reopened: "submits world_after_cancellation ''0xwitness'' world_reopened
      \<and> order_status (transactions world_reopened) ''0xwitness'' = Some ''open''"
    by blast
  from run sub opened cancel wit fresh cancelled demo_resubmission_step steps reopened
  show ?thesis by (intro conjI) blast+
qed

section \<open>The rate type\<close>















lemma invert_invert: "invert (invert p) = p"
  by (simp add: invert_def)

















section \<open>Fixed-point amounts\<close>






section \<open>The stop-loss client hook\<close>

text \<open>
  Where \<open>library?.getSigner()\<close> does not throw, the hook returns a value, and the value is
  undefined when the chain id or the library is absent and when the constructor throws.
\<close>

lemma stoploss_hook_returns:
  assumes "optional_getSigner lib = Inr sg"
  shows "\<exists>r. useGelatoStoplossOrdersLib new chain lib = Inr r
           \<and> (\<not> truthy_num chain \<or> lib = None \<longrightarrow> r = None)
           \<and> ((\<exists>c e. chain = Some c \<and> new c sg ''quickswap_stoploss'' = Inl e) \<longrightarrow> r = None)"
  using assms
  by (auto simp: useGelatoStoplossOrdersLib_def truthy_num_def split: option.splits sum.splits)

text \<open>
  Claim C10 says the hook never throws. With a chain id and a provider library whose
  \<open>getSigner\<close> throws, the logging statement before the \<open>try\<close> block evaluates
  \<open>library?.getSigner()\<close> and the hook throws that error.
\<close>

theorem stoploss_hook_throws:
  "useGelatoStoplossOrdersLib demo_constructor (Some 137) (Some library_without_getSigner) =
     Inl (Error ''library.getSigner is not a function'')"
  by (simp add: useGelatoStoplossOrdersLib_def optional_getSigner_def library_without_getSigner_def)

end

